theory Spec2Isabelle
  imports Complex_Main
begin

section \<open>Homely Helper: the room layout model of \<open>main.py\<close>\<close>

text \<open>
  A shallow embedding of the layout model of the planner: unit conversion, the data
  classes, the graphics items with their position notifications, and the methods of
  \<open>RoomPlanner\<close> that create, rescale, save and load the layout.

  Conventions of the embedding.
  \<^item> A Python \<open>float\<close> is a \<open>real\<close>: conversions and scalings are exact, as the
    design document assumes (``exact linear scaling''). Rounding of IEEE doubles is
    outside the model.
  \<^item> A Python \<open>int\<close> is an \<open>int\<close>.
  \<^item> An exception is a value \<open>Inl e\<close> of a sum type; a method that catches its
    exceptions returns the state it had reached together with what it reported.
  \<^item> Mutation is state passing: a method takes the planner and returns it updated.
  \<^item> Qt is a library, not part of the program. Its colour type is a type variable
    \<open>'c\<close>; the three library functions whose results the model depends on
    (\<open>QColor(str)\<close>, \<open>QColor.name()\<close>, \<open>QDoubleSpinBox.setValue\<close>) are parameters,
    collected in the record \<open>Qt\<close>. \<open>QGraphicsItem.setPos\<close> is modelled from Qt's
    documented notification protocol, because \<open>FurnitureItem.itemChange\<close> is the
    program's own code and runs inside it.
\<close>

subsection \<open>Exceptions\<close>

datatype py_error = KeyError | ZeroDivisionError | OSError | JSONDecodeError

subsection \<open>Utility: unit conversion\<close>

text \<open>\<open>_UNIT_FACTORS = {"m": 1.0, "ft": 0.3048, "in": 0.0254}\<close>\<close>

definition UNIT_FACTORS :: "(string \<times> real) list" where
  "UNIT_FACTORS = [(''m'', 1.0), (''ft'', 0.3048), (''in'', 0.0254)]"

text \<open>\<open>_UNIT_FACTORS[unit]\<close> raises \<open>KeyError\<close> on a unit that is not a key.\<close>

definition to_m :: "real \<Rightarrow> string \<Rightarrow> py_error + real" where
  "to_m val unit =
     (case map_of UNIT_FACTORS unit of
        None \<Rightarrow> Inl KeyError
      | Some factor \<Rightarrow> Inr (val * factor))"

definition from_m :: "real \<Rightarrow> string \<Rightarrow> py_error + real" where
  "from_m value_m unit =
     (case map_of UNIT_FACTORS unit of
        None \<Rightarrow> Inl KeyError
      | Some factor \<Rightarrow> Inr (value_m / factor))"



text \<open>
  A unit selector is a \<open>QComboBox\<close> filled by \<open>addItems(["m", "ft", "in"])\<close> and
  not editable: its current text is always one of the three.
\<close>

datatype unit_item = Item_m | Item_ft | Item_in

fun currentText :: "unit_item \<Rightarrow> string" where
  "currentText Item_m = ''m''"
| "currentText Item_ft = ''ft''"
| "currentText Item_in = ''in''"

text \<open>The factor of \<open>_UNIT_FACTORS\<close> under the text of a selector's entry.\<close>

definition unit_factor :: "unit_item \<Rightarrow> real" where
  "unit_factor u = (case u of Item_m \<Rightarrow> 1.0 | Item_ft \<Rightarrow> 0.3048 | Item_in \<Rightarrow> 0.0254)"

subsection \<open>Formatting an integer (\<open>f"{n}"\<close>)\<close>

definition digit_char :: "nat \<Rightarrow> char" where
  "digit_char d = ''0123456789'' ! d"

fun str_nat :: "nat \<Rightarrow> string" where
  "str_nat n =
     (if n < 10 then [digit_char n]
      else str_nat (n div 10) @ [digit_char (n mod 10)])"

declare str_nat.simps [simp del]

definition str :: "int \<Rightarrow> string" where
  "str i = (if i < 0 then CHR ''-'' # str_nat (nat (- i)) else str_nat (nat i))"

subsection \<open>Python's \<open>%\<close> on floats\<close>


subsection \<open>Data-model classes\<close>

text \<open>
  The dataclass \<open>Furniture\<close>. The fields of \<open>DoorWindow\<close> that share a name with
  one of \<open>Furniture\<close> carry the prefix \<open>dw_\<close>.
\<close>

record 'c Furniture =
  name :: string
  width_m :: real
  depth_m :: real
  colour :: 'c
  x_m :: real
  y_m :: real
  rotation :: real

record DoorWindow =
  dw_name :: string
  dw_width_m :: real
  thickness_m :: real
  dw_x_m :: real
  dw_y_m :: real
  is_door :: bool

type_synonym QPointF = "real \<times> real"

text \<open>
  \<open>DoorItem(QGraphicsRectItem)\<close>: the data object, the attribute \<open>scale\<close>, and the
  display geometry Qt keeps for the item (its rectangle, position and rotation).
\<close>

record DoorItem =
  door_window :: DoorWindow
  door_scale :: real
  door_rect_width :: real
  door_rect_height :: real
  door_pos :: QPointF
  door_rotation :: real
  is_open :: bool

definition new_DoorItem :: "DoorWindow \<Rightarrow> real \<Rightarrow> DoorItem" where
  "new_DoorItem dw scale =
     \<lparr> door_window = dw, door_scale = scale,
       door_rect_width = dw_width_m dw * scale,
       door_rect_height = thickness_m dw * scale,
       door_pos = (0, 0), door_rotation = 0, is_open = False \<rparr>"

text \<open>
  \<open>FurnitureItem(QGraphicsRectItem)\<close>: \<open>item_scale\<close> is the attribute
  \<open>self.scale\<close>, \<open>item_pos\<close> is \<open>self.pos()\<close>, \<open>rect_width\<close> and \<open>rect_height\<close>
  are \<open>self.rect()\<close>, \<open>item_rotation\<close> is the rotation Qt displays.
\<close>

record 'c FurnitureItem =
  furn :: "'c Furniture"
  item_scale :: real
  rect_width :: real
  rect_height :: real
  item_pos :: QPointF
  item_rotation :: real

text \<open>\<open>FurnitureItem.__init__\<close>: the rectangle from the model size, the initial rotation.\<close>

definition new_FurnitureItem :: "'c Furniture \<Rightarrow> real \<Rightarrow> 'c FurnitureItem" where
  "new_FurnitureItem f scale =
     \<lparr> furn = f, item_scale = scale,
       rect_width = width_m f * scale,
       rect_height = depth_m f * scale,
       item_pos = (0, 0), item_rotation = rotation f \<rparr>"

subsection \<open>The planner\<close>

text \<open>
  What an entry of the list widget carries under \<open>UserRole\<close>: a \<open>Furniture\<close> or a
  \<open>DoorWindow\<close> object. The program reads only the object's class and its name through
  the list, and never reassigns a name, so an entry is the class and the name.
\<close>

datatype list_data = FurnitureData string | DoorWindowData string

text \<open>The dictionary \<open>clipboard_furniture\<close>.\<close>

record clipboard =
  clip_name :: string
  clip_width_m :: real
  clip_depth_m :: real
  clip_colour :: string
  clip_rotation :: real

text \<open>
  The attributes of \<open>RoomPlanner\<close> that hold the layout, and the widgets of the control
  panel whose values the methods read: the spin boxes, the unit selectors, the name field
  and the chosen colour. \<open>room_rect_item\<close> is the display rectangle of the room
  (\<open>None\<close> before it is drawn).
\<close>

record 'c RoomPlanner =
  pixels_per_m :: real
  show_room_border :: bool
  current_floor_texture :: string
  current_room_unit :: unit_item
  current_furniture_unit :: unit_item
  clipboard_furniture :: "clipboard option"
  room_width_m :: real
  room_depth_m :: real
  room_name :: string
  room_rect_item :: "(real \<times> real) option"
  furniture_items :: "'c FurnitureItem list"
  door_items :: "DoorItem list"
  snap_to_borders :: bool
  door_counter :: int
  window_counter :: int
  list_widget :: "list_data list"
  room_w_spin :: real
  room_w_unit :: unit_item
  room_d_spin :: real
  room_d_unit :: unit_item
  f_name :: string
  f_w_spin :: real
  f_w_unit :: unit_item
  f_d_spin :: real
  f_d_unit :: unit_item
  f_colour :: 'c

text \<open>
  The functions of the Qt library the model depends on: the constructor \<open>QColor(str)\<close>,
  \<open>QColor.name()\<close>, and the value a \<open>QDoubleSpinBox\<close> holds after \<open>setValue(v)\<close>
  (the widget clamps to its range and rounds to its decimals).
\<close>

record 'c Qt =
  QColor :: "string \<Rightarrow> 'c"
  colour_name :: "'c \<Rightarrow> string"
  setValue :: "real \<Rightarrow> real"

subsection \<open>\<open>FurnitureItem\<close>: position notifications and rotation\<close>

text \<open>
  \<open>itemChange\<close>, branch \<open>ItemPositionChange\<close>: with \<open>snap_to_borders\<close> the proposed
  position is clamped to the room; otherwise the method falls through to
  \<open>super().itemChange\<close>, which returns the value unchanged.
\<close>

definition itemChange_ItemPositionChange ::
  "'c RoomPlanner \<Rightarrow> 'c FurnitureItem \<Rightarrow> QPointF \<Rightarrow> QPointF" where
  "itemChange_ItemPositionChange parent_planner self new_pos =
     (if snap_to_borders parent_planner then
        (let room_width_px = room_width_m parent_planner * item_scale self;
             room_height_px = room_depth_m parent_planner * item_scale self;
             furniture_width = rect_width self;
             furniture_height = rect_height self;
             x = max 0 (min (fst new_pos) (room_width_px - furniture_width));
             y = max 0 (min (snd new_pos) (room_height_px - furniture_height))
         in (x, y))
      else new_pos)"

text \<open>
  \<open>itemChange\<close>, branch \<open>ItemPositionHasChanged\<close>: the model position is recomputed
  from the display position and the item's own \<open>scale\<close> attribute.
\<close>

definition itemChange_ItemPositionHasChanged ::
  "'c FurnitureItem \<Rightarrow> py_error + 'c FurnitureItem" where
  "itemChange_ItemPositionHasChanged self =
     (if item_scale self = 0 then Inl ZeroDivisionError
      else Inr (self\<lparr> furn := (furn self)
                  \<lparr> x_m := fst (item_pos self) / item_scale self,
                    y_m := snd (item_pos self) / item_scale self \<rparr> \<rparr>))"

text \<open>
  \<open>QGraphicsItem.setPos\<close> for an item with the flag \<open>ItemSendsGeometryChanges\<close>
  (which \<open>FurnitureItem.__init__\<close> sets), modelled from Qt's documentation: nothing
  happens when the position is already the requested one; otherwise \<open>itemChange\<close> is
  sent \<open>ItemPositionChange\<close> and may adjust the position; if the adjusted position
  differs from the current one it is stored and \<open>ItemPositionHasChanged\<close> is sent.
\<close>

definition setPos ::
  "'c RoomPlanner \<Rightarrow> QPointF \<Rightarrow> 'c FurnitureItem \<Rightarrow> py_error + 'c FurnitureItem" where
  "setPos parent_planner p self =
     (if item_pos self = p then Inr self
      else (let newPos = itemChange_ItemPositionChange parent_planner self p
            in if newPos = item_pos self then Inr self
               else itemChange_ItemPositionHasChanged (self\<lparr> item_pos := newPos \<rparr>)))"


subsection \<open>Room rectangle, new room, canvas scale\<close>

definition draw_room_border :: "'c RoomPlanner \<Rightarrow> 'c RoomPlanner" where
  "draw_room_border self =
     (let px_w = room_width_m self * pixels_per_m self;
          px_d = room_depth_m self * pixels_per_m self
      in self\<lparr> room_rect_item := Some (px_w, px_d) \<rparr>)"


text \<open>
  The body of the loop of \<open>_set_canvas_scale\<close>, for one element of
  \<open>furniture_items\<close>: \<open>setRect\<close>, \<open>setPos\<close>, the assignment \<open>item.scale = scale\<close>,
  \<open>setRotation\<close>, in the order of the source.
\<close>

definition rescale_item ::
  "'c RoomPlanner \<Rightarrow> real \<Rightarrow> 'c FurnitureItem \<Rightarrow> py_error + 'c FurnitureItem" where
  "rescale_item parent_planner scale item =
     (let new_width = width_m (furn item) * scale;
          new_height = depth_m (furn item) * scale;
          item1 = item\<lparr> rect_width := new_width, rect_height := new_height \<rparr>
      in case setPos parent_planner (x_m (furn item1) * scale, y_m (furn item1) * scale) item1 of
           Inl e \<Rightarrow> Inl e
         | Inr item2 \<Rightarrow>
             Inr (let item3 = item2\<lparr> item_scale := scale \<rparr>
                  in item3\<lparr> item_rotation := rotation (furn item3) \<rparr>))"

fun rescale_items ::
  "'c RoomPlanner \<Rightarrow> real \<Rightarrow> 'c FurnitureItem list \<Rightarrow> py_error + 'c FurnitureItem list" where
  "rescale_items parent_planner scale [] = Inr []"
| "rescale_items parent_planner scale (item # items) =
     (case rescale_item parent_planner scale item of
        Inl e \<Rightarrow> Inl e
      | Inr item' \<Rightarrow>
          (case rescale_items parent_planner scale items of
             Inl e \<Rightarrow> Inl e
           | Inr items' \<Rightarrow> Inr (item' # items')))"

text \<open>
  \<open>_set_canvas_scale\<close>: the scale is stored, the room is redrawn, and the loop runs over
  \<open>self.furniture_items\<close>. The list \<open>self.door_items\<close> is not iterated.
\<close>

definition set_canvas_scale :: "real \<Rightarrow> 'c RoomPlanner \<Rightarrow> py_error + 'c RoomPlanner" where
  "set_canvas_scale scale self =
     (let s1 = draw_room_border (self\<lparr> pixels_per_m := scale \<rparr>)
      in case rescale_items s1 scale (furniture_items s1) of
           Inl e \<Rightarrow> Inl e
         | Inr items \<Rightarrow> Inr (s1\<lparr> furniture_items := items \<rparr>))"

definition toggle_snap_to_borders :: "bool \<Rightarrow> 'c RoomPlanner \<Rightarrow> 'c RoomPlanner" where
  "toggle_snap_to_borders checked self = self\<lparr> snap_to_borders := checked \<rparr>"

subsection \<open>The control panel: room size, unit selectors, adding furniture\<close>

text \<open>\<open>on_room_apply\<close>.\<close>

definition on_room_apply :: "'c RoomPlanner \<Rightarrow> py_error + 'c RoomPlanner" where
  "on_room_apply self =
     (case to_m (room_w_spin self) (currentText (room_w_unit self)) of
        Inl e \<Rightarrow> Inl e
      | Inr w \<Rightarrow>
          (case to_m (room_d_spin self) (currentText (room_d_unit self)) of
             Inl e \<Rightarrow> Inl e
           | Inr d \<Rightarrow> Inr (draw_room_border (self\<lparr> room_width_m := w, room_depth_m := d \<rparr>))))"

text \<open>
  \<open>_update_room_unit_display\<close>, the slot of \<open>currentTextChanged\<close> of both unit
  selectors of the room panel. \<open>d_unit\<close> is read and not used. The attribute
  \<open>current_room_unit\<close> exists from \<open>__init__\<close> on, so \<open>hasattr\<close> holds.
\<close>

definition update_room_unit_display ::
  "'c Qt \<Rightarrow> 'c RoomPlanner \<Rightarrow> py_error + 'c RoomPlanner" where
  "update_room_unit_display qt self =
     (let w_unit = room_w_unit self;
          d_unit = room_d_unit self;
          old_unit = current_room_unit self
      in if old_unit \<noteq> w_unit then
           (let current_val = room_w_spin self
            in case to_m current_val (currentText old_unit) of
                 Inl e \<Rightarrow> Inl e
               | Inr val_m \<Rightarrow>
                   (case from_m val_m (currentText w_unit) of
                      Inl e \<Rightarrow> Inl e
                    | Inr new_val \<Rightarrow>
                        Inr (self\<lparr> room_w_spin := setValue qt new_val,
                                    current_room_unit := w_unit \<rparr>)))
         else Inr (self\<lparr> current_room_unit := w_unit \<rparr>))"

text \<open>\<open>_update_furniture_unit_display\<close>, the same slot for the furniture panel.\<close>

definition update_furniture_unit_display ::
  "'c Qt \<Rightarrow> 'c RoomPlanner \<Rightarrow> py_error + 'c RoomPlanner" where
  "update_furniture_unit_display qt self =
     (let w_unit = f_w_unit self;
          d_unit = f_d_unit self;
          old_unit = current_furniture_unit self
      in if old_unit \<noteq> w_unit then
           (let current_val = f_w_spin self
            in case to_m current_val (currentText old_unit) of
                 Inl e \<Rightarrow> Inl e
               | Inr val_m \<Rightarrow>
                   (case from_m val_m (currentText w_unit) of
                      Inl e \<Rightarrow> Inl e
                    | Inr new_val \<Rightarrow>
                        Inr (self\<lparr> f_w_spin := setValue qt new_val,
                                    current_furniture_unit := w_unit \<rparr>)))
         else Inr (self\<lparr> current_furniture_unit := w_unit \<rparr>))"

text \<open>
  The user picks an entry of a unit selector: the selector takes the new text and, when
  the text changed, emits \<open>currentTextChanged\<close>, which runs the slot above.
\<close>

definition select_room_w_unit ::
  "'c Qt \<Rightarrow> unit_item \<Rightarrow> 'c RoomPlanner \<Rightarrow> py_error + 'c RoomPlanner" where
  "select_room_w_unit qt u self =
     (if room_w_unit self = u then Inr self
      else update_room_unit_display qt (self\<lparr> room_w_unit := u \<rparr>))"

definition select_room_d_unit ::
  "'c Qt \<Rightarrow> unit_item \<Rightarrow> 'c RoomPlanner \<Rightarrow> py_error + 'c RoomPlanner" where
  "select_room_d_unit qt u self =
     (if room_d_unit self = u then Inr self
      else update_room_unit_display qt (self\<lparr> room_d_unit := u \<rparr>))"

definition select_f_w_unit ::
  "'c Qt \<Rightarrow> unit_item \<Rightarrow> 'c RoomPlanner \<Rightarrow> py_error + 'c RoomPlanner" where
  "select_f_w_unit qt u self =
     (if f_w_unit self = u then Inr self
      else update_furniture_unit_display qt (self\<lparr> f_w_unit := u \<rparr>))"

definition select_f_d_unit ::
  "'c Qt \<Rightarrow> unit_item \<Rightarrow> 'c RoomPlanner \<Rightarrow> py_error + 'c RoomPlanner" where
  "select_f_d_unit qt u self =
     (if f_d_unit self = u then Inr self
      else update_furniture_unit_display qt (self\<lparr> f_d_unit := u \<rparr>))"

text \<open>
  \<open>on_add_furniture\<close>. The default name is
  \<open>f"Item {self.list_widget.count() + 1}"\<close>; the new piece has the dataclass defaults
  \<open>x_m = 0.0\<close>, \<open>y_m = 0.0\<close>, \<open>rotation = 0.0\<close>.
\<close>

definition default_item_name :: "'c RoomPlanner \<Rightarrow> string" where
  "default_item_name self = ''Item '' @ str (int (length (list_widget self)) + 1)"

definition on_add_furniture :: "'c RoomPlanner \<Rightarrow> py_error + 'c RoomPlanner" where
  "on_add_furniture self =
     (let nm = (if f_name self \<noteq> [] then f_name self else default_item_name self)
      in case to_m (f_w_spin self) (currentText (f_w_unit self)) of
           Inl e \<Rightarrow> Inl e
         | Inr w \<Rightarrow>
             (case to_m (f_d_spin self) (currentText (f_d_unit self)) of
                Inl e \<Rightarrow> Inl e
              | Inr d \<Rightarrow>
                  (let fu = \<lparr> name = nm, width_m = w, depth_m = d, colour = f_colour self,
                              x_m = 0, y_m = 0, rotation = 0 \<rparr>;
                       item_rect = new_FurnitureItem fu (pixels_per_m self)
                   in Inr (self\<lparr> furniture_items := furniture_items self @ [item_rect],
                                  list_widget := list_widget self @ [FurnitureData nm],
                                  f_name := [] \<rparr>))))"


subsection \<open>Copy, paste, duplicate\<close>






subsection \<open>Doors and windows: the default name\<close>

text \<open>\<open>_name_exists\<close>: the loop over the entries of the list widget.\<close>

fun name_exists_in :: "list_data list \<Rightarrow> string \<Rightarrow> bool" where
  "name_exists_in [] nm = False"
| "name_exists_in (FurnitureData n # rest) nm = (if n = nm then True else name_exists_in rest nm)"
| "name_exists_in (DoorWindowData n # rest) nm = (if n = nm then True else name_exists_in rest nm)"

definition name_exists :: "'c RoomPlanner \<Rightarrow> string \<Rightarrow> bool" where
  "name_exists self nm = name_exists_in (list_widget self) nm"

text \<open>The entries of a list still ahead of the counter: a measure for the loop below.\<close>

definition ahead :: "string \<Rightarrow> list_data list \<Rightarrow> int \<Rightarrow> list_data list" where
  "ahead prefix entries c =
     filter (\<lambda>d. \<exists>k\<ge>c. d = FurnitureData (prefix @ str k) \<or> d = DoorWindowData (prefix @ str k))
       entries"

text \<open>
  The decimal numeral of an integer determines the integer; the loop that probes
  counters terminates because of it.
\<close>

lemma digit_char_inj: "a < 10 \<Longrightarrow> b < 10 \<Longrightarrow> digit_char a = digit_char b \<Longrightarrow> a = b"
proof -
  assume "a < 10" "b < 10" "digit_char a = digit_char b"
  moreover have "distinct ''0123456789''" by simp
  ultimately show "a = b"
    unfolding digit_char_def by (simp add: nth_eq_iff_index_eq)
qed

lemma digit_char_not_minus: "d < 10 \<Longrightarrow> digit_char d \<noteq> CHR ''-''"
proof -
  assume "d < 10"
  then have "digit_char d \<in> set ''0123456789''"
    unfolding digit_char_def by (intro nth_mem) simp
  then show ?thesis by auto
qed

lemma str_nat_not_Nil: "str_nat n \<noteq> []"
  by (subst str_nat.simps) simp

lemma hd_str_nat_not_minus: "hd (str_nat n) \<noteq> CHR ''-''"
proof (induction n rule: str_nat.induct)
  case (1 n)
  show ?case
  proof (cases "n < 10")
    case True
    then show ?thesis
      by (subst str_nat.simps) (simp add: digit_char_not_minus)
  next
    case False
    with 1 have "hd (str_nat (n div 10)) \<noteq> CHR ''-''" by simp
    with False show ?thesis
      by (subst str_nat.simps) (simp add: str_nat_not_Nil)
  qed
qed

lemma str_nat_inj: "str_nat a = str_nat b \<Longrightarrow> a = b"
proof (induction a arbitrary: b rule: str_nat.induct)
  case (1 a)
  show ?case
  proof (cases "a < 10")
    case a: True
    show ?thesis
    proof (cases "b < 10")
      case True
      with a "1.prems" show ?thesis
        by (simp add: str_nat.simps [of a] str_nat.simps [of b] digit_char_inj)
    next
      case False
      with a "1.prems" show ?thesis
        using str_nat_not_Nil [of "b div 10"]
        by (simp add: str_nat.simps [of a] str_nat.simps [of b])
    qed
  next
    case a: False
    show ?thesis
    proof (cases "b < 10")
      case True
      with a "1.prems" show ?thesis
        by (simp add: str_nat.simps [of a] str_nat.simps [of b] str_nat_not_Nil)
    next
      case False
      with a "1.prems" have eq: "str_nat (a div 10) = str_nat (b div 10)"
        and d: "digit_char (a mod 10) = digit_char (b mod 10)"
        by (simp_all add: str_nat.simps [of a] str_nat.simps [of b])
      from "1.IH" [OF a eq] have "a div 10 = b div 10" .
      moreover from d have "a mod 10 = b mod 10"
        by (intro digit_char_inj) simp_all
      ultimately show ?thesis
        by (metis div_mult_mod_eq)
    qed
  qed
qed

lemma str_inj: "str a = str b \<Longrightarrow> a = b"
proof -
  assume eq: "str a = str b"
  have neg: "hd (str i) = CHR ''-'' \<longleftrightarrow> i < 0" for i
    by (simp add: str_def hd_str_nat_not_minus)
  from eq have "a < 0 \<longleftrightarrow> b < 0" using neg by metis
  with eq show "a = b"
    by (auto simp add: str_def dest!: str_nat_inj)
qed

lemma ahead_decreases:
  assumes "name_exists_in entries (prefix @ str c)"
  shows "length (ahead prefix entries (c + 1)) < length (ahead prefix entries c)"
proof -
  let ?P = "\<lambda>c d. \<exists>k\<ge>c. d = FurnitureData (prefix @ str k) \<or> d = DoorWindowData (prefix @ str k)"
  from assms obtain d where d: "d \<in> set entries"
      "d = FurnitureData (prefix @ str c) \<or> d = DoorWindowData (prefix @ str c)"
    by (induction entries "prefix @ str c" rule: name_exists_in.induct)
       (auto split: if_splits)
  then have "?P c d" by auto
  with d have in_c: "d \<in> set (ahead prefix entries c)"
    by (simp add: ahead_def)
  have not_next: "\<not> ?P (c + 1) d"
    using d(2) by (auto dest!: str_inj)
  have mono: "?P (c + 1) e \<Longrightarrow> ?P c e" for e
  proof -
    assume "?P (c + 1) e"
    then obtain k where "c + 1 \<le> k"
        "e = FurnitureData (prefix @ str k) \<or> e = DoorWindowData (prefix @ str k)"
      by blast
    then have "c \<le> k \<and> (e = FurnitureData (prefix @ str k) \<or> e = DoorWindowData (prefix @ str k))"
      by simp
    then show "?P c e" by blast
  qed
  have "filter (?P (c + 1)) (filter (?P c) entries) = filter (?P (c + 1)) entries"
    unfolding filter_filter by (rule filter_cong) (use mono in blast)+
  then have "ahead prefix entries (c + 1) = filter (?P (c + 1)) (ahead prefix entries c)"
    unfolding ahead_def by simp
  moreover have "length (filter (?P (c + 1)) (ahead prefix entries c)) < length (ahead prefix entries c)"
    using in_c not_next by (intro length_filter_less)
  ultimately show ?thesis by simp
qed

text \<open>
  The loop of \<open>add_door\<close> and \<open>add_window\<close>:
  \<open>while self._name_exists(f"Door {self.door_counter}"): self.door_counter += 1\<close>.
  The result is the counter the loop leaves.
\<close>

function next_free_counter :: "string \<Rightarrow> list_data list \<Rightarrow> int \<Rightarrow> int" where
  "next_free_counter prefix entries c =
     (if name_exists_in entries (prefix @ str c)
      then next_free_counter prefix entries (c + 1)
      else c)"
  by pat_completeness auto
termination
  by (relation "measure (\<lambda>(prefix, entries, c). length (ahead prefix entries c))")
     (simp_all add: ahead_decreases)

declare next_free_counter.simps [simp del]

text \<open>
  What the dimension dialog returns: rejected, or accepted with the name, width and
  thickness of its fields. The dialog is shown with a default name, which the user may
  keep or replace, so the outcome is a function of that name.
\<close>

datatype dialog_result = Rejected | Accepted string real real

definition get_door_window_data :: "string \<Rightarrow> real \<Rightarrow> real \<Rightarrow> bool \<Rightarrow> DoorWindow" where
  "get_door_window_data nm w t door =
     \<lparr> dw_name = nm, dw_width_m = w, thickness_m = t, dw_x_m = 0, dw_y_m = 0, is_door = door \<rparr>"

definition add_door :: "(string \<Rightarrow> dialog_result) \<Rightarrow> 'c RoomPlanner \<Rightarrow> 'c RoomPlanner" where
  "add_door dialog self =
     (case room_rect_item self of
        None \<Rightarrow> self
      | Some r \<Rightarrow>
          (let s1 = self\<lparr> door_counter :=
                       next_free_counter ''Door '' (list_widget self) (door_counter self) \<rparr>
           in case dialog (''Door '' @ str (door_counter s1)) of
                Rejected \<Rightarrow> s1
              | Accepted nm w t \<Rightarrow>
                  (let door_data = get_door_window_data nm w t True;
                       door_item = new_DoorItem door_data (pixels_per_m s1);
                       door_x = (room_width_m s1 - dw_width_m door_data) / 2;
                       door_y = room_depth_m s1 - thickness_m door_data;
                       door_item' = door_item\<lparr> door_pos :=
                                      (door_x * pixels_per_m s1, door_y * pixels_per_m s1) \<rparr>
                   in s1\<lparr> door_items := door_items s1 @ [door_item'],
                          list_widget := list_widget s1 @ [DoorWindowData (dw_name door_data)],
                          door_counter := door_counter s1 + 1 \<rparr>)))"

definition add_window :: "(string \<Rightarrow> dialog_result) \<Rightarrow> 'c RoomPlanner \<Rightarrow> 'c RoomPlanner" where
  "add_window dialog self =
     (case room_rect_item self of
        None \<Rightarrow> self
      | Some r \<Rightarrow>
          (let s1 = self\<lparr> window_counter :=
                       next_free_counter ''Window '' (list_widget self) (window_counter self) \<rparr>
           in case dialog (''Window '' @ str (window_counter s1)) of
                Rejected \<Rightarrow> s1
              | Accepted nm w t \<Rightarrow>
                  (let window_data = get_door_window_data nm w t False;
                       window_item = new_DoorItem window_data (pixels_per_m s1);
                       window_x = (room_width_m s1 - dw_width_m window_data) / 2;
                       window_y = 0;
                       window_item' = window_item\<lparr> door_pos :=
                                        (window_x * pixels_per_m s1, window_y * pixels_per_m s1) \<rparr>
                   in s1\<lparr> door_items := door_items s1 @ [window_item'],
                          list_widget := list_widget s1 @ [DoorWindowData (dw_name window_data)],
                          window_counter := window_counter s1 + 1 \<rparr>)))"

text \<open>The name the dialog of \<open>add_door\<close> (\<open>add_window\<close>) is shown with.\<close>

definition door_default_name :: "'c RoomPlanner \<Rightarrow> string" where
  "door_default_name self =
     ''Door '' @ str (next_free_counter ''Door '' (list_widget self) (door_counter self))"

definition window_default_name :: "'c RoomPlanner \<Rightarrow> string" where
  "window_default_name self =
     ''Window '' @ str (next_free_counter ''Window '' (list_widget self) (window_counter self))"


subsection \<open>The persisted document\<close>









subsection \<open>Saving\<close>




subsection \<open>Loading\<close>







subsection \<open>The initial planner\<close>

text \<open>
  \<open>RoomPlanner.__init__\<close> up to \<open>draw_room_border()\<close>: the attributes, and the
  initial values of the widgets from \<open>_build_control_panel\<close>.
\<close>

definition RoomPlanner_init :: "'c Qt \<Rightarrow> py_error + 'c RoomPlanner" where
  "RoomPlanner_init qt =
     (case to_m 16.0 ''ft'' of
        Inl e \<Rightarrow> Inl e
      | Inr w \<Rightarrow>
          (case to_m 12.0 ''ft'' of
             Inl e \<Rightarrow> Inl e
           | Inr d \<Rightarrow>
               Inr (draw_room_border
                 \<lparr> pixels_per_m = 60, show_room_border = True, current_floor_texture = ''None'',
                   current_room_unit = Item_ft, current_furniture_unit = Item_in,
                   clipboard_furniture = None,
                   room_width_m = w, room_depth_m = d, room_name = ''My Room'',
                   room_rect_item = None, furniture_items = [], door_items = [],
                   snap_to_borders = False, door_counter = 1, window_counter = 1,
                   list_widget = [],
                   room_w_spin = 16.0, room_w_unit = Item_ft,
                   room_d_spin = 12.0, room_d_unit = Item_ft,
                   f_name = [], f_w_spin = 72, f_w_unit = Item_in,
                   f_d_spin = 36, f_d_unit = Item_in,
                   f_colour = QColor qt ''#4a90e2'' \<rparr>)))"

subsection \<open>Predicates of the claims\<close>






subsection \<open>Concrete planners for the examples\<close>

text \<open>
  A colour type and library functions to run the model on: a colour is represented by
  its name, and a spin box of range 1 to 1000 clamps what it is given.
\<close>

definition example_qt :: "string Qt" where
  "example_qt = \<lparr> QColor = (\<lambda>s. s), colour_name = (\<lambda>c. c), setValue = (\<lambda>v. max 1 (min 1000 v)) \<rparr>"

text \<open>The planner right after start, written out.\<close>

definition start_planner :: "string RoomPlanner" where
  "start_planner =
     \<lparr> pixels_per_m = 60, show_room_border = True, current_floor_texture = ''None'',
       current_room_unit = Item_ft, current_furniture_unit = Item_in,
       clipboard_furniture = None,
       room_width_m = 4.8768, room_depth_m = 3.6576, room_name = ''My Room'',
       room_rect_item = Some (292.608, 219.456), furniture_items = [], door_items = [],
       snap_to_borders = False, door_counter = 1, window_counter = 1,
       list_widget = [],
       room_w_spin = 16.0, room_w_unit = Item_ft,
       room_d_spin = 12.0, room_d_unit = Item_ft,
       f_name = [], f_w_spin = 72, f_w_unit = Item_in,
       f_d_spin = 36, f_d_unit = Item_in,
       f_colour = ''#4a90e2'' \<rparr>"

text \<open>A table of 1 m by 1 m placed at (1 m, 1 m), shown at 60 pixels per metre.\<close>

definition example_table :: "string Furniture" where
  "example_table =
     \<lparr> name = ''Table'', width_m = 1, depth_m = 1, colour = ''#4a90e2'',
       x_m = 1, y_m = 1, rotation = 90 \<rparr>"

definition example_table_item :: "string FurnitureItem" where
  "example_table_item =
     \<lparr> furn = example_table, item_scale = 60, rect_width = 60, rect_height = 60,
       item_pos = (60, 60), item_rotation = 90 \<rparr>"

text \<open>A door of 1 m by 0.1 m centred on the bottom wall, shown at 60 pixels per metre.\<close>

definition example_door_item :: DoorItem where
  "example_door_item =
     \<lparr> door_window = \<lparr> dw_name = ''Door 1'', dw_width_m = 1, thickness_m = 0.1,
                        dw_x_m = 0, dw_y_m = 0, is_door = True \<rparr>,
       door_scale = 60, door_rect_width = 60, door_rect_height = 6,
       door_pos = (116.304, 213.456), door_rotation = 0, is_open = False \<rparr>"

text \<open>The start planner with the table and the door in it.\<close>

definition furnished_planner :: "string RoomPlanner" where
  "furnished_planner =
     start_planner\<lparr> furniture_items := [example_table_item],
                    door_items := [example_door_item],
                    list_widget := [FurnitureData ''Table'', DoorWindowData ''Door 1''],
                    door_counter := 2 \<rparr>"


text \<open>
  The start planner with a door and a piece named \<open>Item 3\<close> in its list: two entries.
\<close>

definition crowded_planner :: "string RoomPlanner" where
  "crowded_planner =
     start_planner\<lparr> list_widget := [DoorWindowData ''Door 1'', FurnitureData ''Item 3''] \<rparr>"










subsection \<open>Theorems: unit conversion\<close>

lemma map_of_UNIT_FACTORS:
  "map_of UNIT_FACTORS ''m'' = Some 1"
  "map_of UNIT_FACTORS ''ft'' = Some 0.3048"
  "map_of UNIT_FACTORS ''in'' = Some 0.0254"
  by (simp_all add: UNIT_FACTORS_def)



subsection \<open>Theorems: the boundary clamp\<close>

text \<open>
  Claim C4. With snap-to-border enabled, the position \<open>itemChange\<close> returns for a
  proposed display position is, on each axis independently, the proposed coordinate
  clamped with the item's unrotated rectangle: \<open>max 0 (min x (W - w))\<close>. When the
  item fits the room on an axis (\<open>w \<le> W\<close>) the result lies in \<open>[0, W - w]\<close>; when the
  item is larger than the room on an axis the result is 0 there. The function is total:
  no proposed position, negative or huge, raises an error.
\<close>

theorem clamp_keeps_item_in_room:
  assumes "snap_to_borders pl"
  shows "fst (itemChange_ItemPositionChange pl it p)
           = max 0 (min (fst p) (room_width_m pl * item_scale it - rect_width it))
       \<and> snd (itemChange_ItemPositionChange pl it p)
           = max 0 (min (snd p) (room_depth_m pl * item_scale it - rect_height it))
       \<and> (rect_width it \<le> room_width_m pl * item_scale it \<longrightarrow>
            0 \<le> fst (itemChange_ItemPositionChange pl it p)
            \<and> fst (itemChange_ItemPositionChange pl it p)
                 \<le> room_width_m pl * item_scale it - rect_width it)
       \<and> (rect_height it \<le> room_depth_m pl * item_scale it \<longrightarrow>
            0 \<le> snd (itemChange_ItemPositionChange pl it p)
            \<and> snd (itemChange_ItemPositionChange pl it p)
                 \<le> room_depth_m pl * item_scale it - rect_height it)
       \<and> (room_width_m pl * item_scale it < rect_width it \<longrightarrow>
            fst (itemChange_ItemPositionChange pl it p) = 0)
       \<and> (room_depth_m pl * item_scale it < rect_height it \<longrightarrow>
            snd (itemChange_ItemPositionChange pl it p) = 0)"
  using assms by (simp add: itemChange_ItemPositionChange_def Let_def)

text \<open>
  The table of 60 by 60 pixels in the start room of 292.608 by 219.456 pixels, dragged
  to (-50, 1000): it comes to rest at (0, 159.456).
\<close>

theorem clamp_keeps_item_in_room_witness:
  "snap_to_borders (start_planner\<lparr> snap_to_borders := True \<rparr>)
   \<and> fst (itemChange_ItemPositionChange (start_planner\<lparr> snap_to_borders := True \<rparr>)
          example_table_item (- 50, 1000)) = 0
   \<and> snd (itemChange_ItemPositionChange (start_planner\<lparr> snap_to_borders := True \<rparr>)
          example_table_item (- 50, 1000)) = 159.456"
  using clamp_keeps_item_in_room
    [of "start_planner\<lparr> snap_to_borders := True \<rparr>" example_table_item "(- 50, 1000)"]
  by (simp add: start_planner_def example_table_item_def)

subsection \<open>Theorems: changing the canvas scale\<close>

text \<open>The loop of \<open>_set_canvas_scale\<close> never reaches the doors and windows.\<close>

lemma rescale_skips_doors:
  "set_canvas_scale scale s = Inr s' \<Longrightarrow> door_items s' = door_items s"
  by (auto simp add: set_canvas_scale_def draw_room_border_def Let_def split: sum.splits)

text \<open>
  Claim C1. A rescale is to recompute the display geometry of every tracked item,
  openings included, from its model-space values, and to alter no model-space value.
  The code does neither. In a planner at 60 pixels per metre holding a table at
  (1 m, 1 m) and a door, \<open>_set_canvas_scale(120)\<close> moves the table's model position to
  (2 m, 2 m): \<open>setPos\<close> runs \<open>itemChange\<close>, which divides the new display position
  (120, 120) by the item's \<open>scale\<close> attribute, still 60 because \<open>item.scale = scale\<close>
  is assigned after \<open>setPos\<close>. The door keeps its rectangle of 60 by 6 pixels, its
  position and its scale 60: \<open>door_items\<close> is not visited.
\<close>

theorem rescale_moves_model_and_skips_doors:
  "set_canvas_scale 120 furnished_planner =
     Inr (furnished_planner
           \<lparr> pixels_per_m := 120,
             room_rect_item := Some (585.216, 438.912),
             furniture_items :=
               [\<lparr> furn = example_table\<lparr> x_m := 2, y_m := 2 \<rparr>,
                  item_scale = 120, rect_width = 120, rect_height = 120,
                  item_pos = (120, 120), item_rotation = 90 \<rparr>] \<rparr>)"
  by (simp add: set_canvas_scale_def draw_room_border_def furnished_planner_def
      start_planner_def rescale_item_def setPos_def itemChange_ItemPositionChange_def
      itemChange_ItemPositionHasChanged_def example_table_item_def example_table_def Let_def)

subsection \<open>Theorems: the unit selectors\<close>

lemma to_m_currentText: "to_m v (currentText u) = Inr (v * unit_factor u)"
  by (cases u) (simp_all add: to_m_def unit_factor_def map_of_UNIT_FACTORS)

lemma from_m_currentText: "from_m v (currentText u) = Inr (v / unit_factor u)"
  by (cases u) (simp_all add: from_m_def unit_factor_def map_of_UNIT_FACTORS)


text \<open>
  Claim C9, as amended. Each panel has two unit selectors, one beside the width and one
  beside the depth, and one slot for both. (The attribute \<open>current_room_unit\<close> follows
  the width selector; it equals it whenever no slot is running.)
  \<^item> Changing the width selector to another unit converts the width spin box from the
    old unit to the new one (through \<open>setValue\<close>) and changes nothing else: the depth
    spin box and the depth selector keep their values.
  \<^item> Changing the depth selector converts nothing: both spin boxes keep their numbers,
    and the depth is read in the new unit from then on, as \<open>on_room_apply\<close> shows.
  The same holds for the furniture panel.
\<close>

theorem unit_selector_change:
  assumes "current_room_unit s = room_w_unit s"
      and "current_furniture_unit s = f_w_unit s"
  shows "(u \<noteq> room_w_unit s \<longrightarrow>
            select_room_w_unit qt u s =
              Inr (s\<lparr> room_w_unit := u,
                      room_w_spin := setValue qt (room_w_spin s * unit_factor (room_w_unit s) / unit_factor u),
                      current_room_unit := u \<rparr>))
       \<and> select_room_d_unit qt u s = Inr (s\<lparr> room_d_unit := u \<rparr>)
       \<and> on_room_apply (s\<lparr> room_d_unit := u \<rparr>) =
            Inr (draw_room_border
                   (s\<lparr> room_d_unit := u,
                       room_width_m := room_w_spin s * unit_factor (room_w_unit s),
                       room_depth_m := room_d_spin s * unit_factor u \<rparr>))
       \<and> (u \<noteq> f_w_unit s \<longrightarrow>
            select_f_w_unit qt u s =
              Inr (s\<lparr> f_w_unit := u,
                      f_w_spin := setValue qt (f_w_spin s * unit_factor (f_w_unit s) / unit_factor u),
                      current_furniture_unit := u \<rparr>))
       \<and> select_f_d_unit qt u s = Inr (s\<lparr> f_d_unit := u \<rparr>)"
  using assms
  by (simp add: select_room_w_unit_def select_room_d_unit_def select_f_w_unit_def
      select_f_d_unit_def update_room_unit_display_def update_furniture_unit_display_def
      on_room_apply_def to_m_currentText from_m_currentText Let_def)

text \<open>At the start (16 ft by 12 ft): the width selector set to inches gives 192.\<close>

theorem unit_selector_change_witness:
  "current_room_unit start_planner = room_w_unit start_planner
   \<and> current_furniture_unit start_planner = f_w_unit start_planner
   \<and> select_room_w_unit example_qt Item_in start_planner =
       Inr (start_planner\<lparr> room_w_unit := Item_in, room_w_spin := 192, current_room_unit := Item_in \<rparr>)
   \<and> select_f_d_unit example_qt Item_m start_planner = Inr (start_planner\<lparr> f_d_unit := Item_m \<rparr>)"
  using unit_selector_change [of start_planner Item_in example_qt]
        unit_selector_change [of start_planner Item_m example_qt]
  by (simp add: start_planner_def example_qt_def unit_factor_def)

text \<open>
  The claim as stated fails for either selector. At the start (16 ft by 12 ft), setting
  the width selector to metres converts the width to 4.8768 and leaves the depth selector
  at feet: the depth 12 is not reinterpreted in metres. Setting the depth selector to
  metres leaves the width spin box at 16: no width is converted.
\<close>

theorem unit_selector_counterexample:
  "select_room_w_unit example_qt Item_m start_planner =
     Inr (start_planner\<lparr> room_w_unit := Item_m, room_w_spin := 4.8768, current_room_unit := Item_m \<rparr>)
   \<and> room_d_unit (start_planner\<lparr> room_w_unit := Item_m, room_w_spin := 4.8768, current_room_unit := Item_m \<rparr>) = Item_ft
   \<and> select_room_d_unit example_qt Item_m start_planner = Inr (start_planner\<lparr> room_d_unit := Item_m \<rparr>)
   \<and> room_w_spin (start_planner\<lparr> room_d_unit := Item_m \<rparr>) = 16"
  by (simp add: select_room_w_unit_def select_room_d_unit_def update_room_unit_display_def
      to_m_def from_m_def map_of_UNIT_FACTORS start_planner_def example_qt_def Let_def)

subsection \<open>Theorems: default names\<close>

lemma next_free_counter_unused:
  "\<not> name_exists_in entries (prefix @ str (next_free_counter prefix entries c))"
proof (induction prefix entries c rule: next_free_counter.induct)
  case (1 prefix entries c)
  then show ?case
    by (subst next_free_counter.simps) simp
qed

lemma next_free_counter_ge: "c \<le> next_free_counter prefix entries c"
proof (induction prefix entries c rule: next_free_counter.induct)
  case (1 prefix entries c)
  show ?case
  proof (cases "name_exists_in entries (prefix @ str c)")
    case True
    with 1 have "c + 1 \<le> next_free_counter prefix entries (c + 1)" by simp
    with True show ?thesis
      by (subst next_free_counter.simps) simp
  next
    case False
    then show ?thesis
      by (subst next_free_counter.simps) simp
  qed
qed

text \<open>A dialog accepted with the name it was shown adds that name to the list.\<close>

lemma add_door_accepts_default:
  assumes "room_rect_item s \<noteq> None"
  shows "list_widget (add_door (\<lambda>nm. Accepted nm w t) s)
           = list_widget s @ [DoorWindowData (door_default_name s)]"
  using assms
  by (auto simp add: add_door_def door_default_name_def get_door_window_data_def Let_def
      split: option.splits)

lemma add_window_accepts_default:
  assumes "room_rect_item s \<noteq> None"
  shows "list_widget (add_window (\<lambda>nm. Accepted nm w t) s)
           = list_widget s @ [DoorWindowData (window_default_name s)]"
  using assms
  by (auto simp add: add_window_def window_default_name_def get_door_window_data_def Let_def
      split: option.splits)

text \<open>
  Claim C7. In every state of the planner, hence after any sequence of additions, the
  name \<open>add_door\<close> (\<open>add_window\<close>) offers is \<open>Door n\<close> (\<open>Window n\<close>) for a counter
  \<open>n\<close> at or past the stored one, and no entry of the list, furniture or opening, has
  that name at that moment. The probing loop terminates (the function is total), so no
  error stands for a collision. An accepted dialog that keeps the name appends it.
\<close>

theorem default_name_unused:
  "\<not> name_exists s (door_default_name s)
   \<and> \<not> name_exists s (window_default_name s)
   \<and> (\<exists>n\<ge>door_counter s. door_default_name s = ''Door '' @ str n)
   \<and> (\<exists>n\<ge>window_counter s. window_default_name s = ''Window '' @ str n)
   \<and> (room_rect_item s \<noteq> None \<longrightarrow>
        list_widget (add_door (\<lambda>nm. Accepted nm w t) s)
          = list_widget s @ [DoorWindowData (door_default_name s)]
        \<and> list_widget (add_window (\<lambda>nm. Accepted nm w t) s)
          = list_widget s @ [DoorWindowData (window_default_name s)])"
proof -
  have "\<not> name_exists s (door_default_name s)" "\<not> name_exists s (window_default_name s)"
    unfolding name_exists_def door_default_name_def window_default_name_def
    by (rule next_free_counter_unused)+
  moreover have "\<exists>n\<ge>door_counter s. door_default_name s = ''Door '' @ str n"
    unfolding door_default_name_def using next_free_counter_ge by blast
  moreover have "\<exists>n\<ge>window_counter s. window_default_name s = ''Window '' @ str n"
    unfolding window_default_name_def using next_free_counter_ge by blast
  ultimately show ?thesis
    using add_door_accepts_default add_window_accepts_default by blast
qed

text \<open>
  The list holds \<open>Table\<close> and \<open>Door 1\<close> and the door counter is back at 1: the loop
  passes \<open>Door 1\<close> and offers \<open>Door 2\<close>.
\<close>

theorem default_name_unused_witness:
  "door_default_name (furnished_planner\<lparr> door_counter := 1 \<rparr>) = ''Door 2''
   \<and> \<not> name_exists (furnished_planner\<lparr> door_counter := 1 \<rparr>) ''Door 2''
   \<and> window_default_name (furnished_planner\<lparr> door_counter := 1 \<rparr>) = ''Window 1''
   \<and> list_widget (add_door (\<lambda>nm. Accepted nm 1 0.1) (furnished_planner\<lparr> door_counter := 1 \<rparr>))
       = [FurnitureData ''Table'', DoorWindowData ''Door 1'', DoorWindowData ''Door 2'']"
  using default_name_unused [of "furnished_planner\<lparr> door_counter := 1 \<rparr>" 1 "0.1"]
  by (simp add: door_default_name_def window_default_name_def furnished_planner_def
      start_planner_def next_free_counter.simps str_def str_nat.simps digit_char_def
      name_exists_def)

lemma door_counts_for_item_name:
  assumes "room_rect_item s \<noteq> None"
  shows "default_item_name (add_door (\<lambda>nm. Accepted nm w t) s)
           = ''Item '' @ str (int (length (list_widget s)) + 2)"
  using add_door_accepts_default [OF assms, of w t]
  by (simp add: default_item_name_def add.commute)

text \<open>
  Claim C10. A piece added with an empty name field is named \<open>Item n\<close>, where \<open>n\<close> is
  the number of entries of the item list plus one. The list holds the doors and windows
  too: adding a door raises the next default by one. The name is taken whatever the
  list contains; no state is excluded, so a name already in use is given again.
\<close>

theorem default_item_name_counts_list:
  assumes "f_name s = []"
  shows "(\<exists>s'. on_add_furniture s = Inr s'
            \<and> map (\<lambda>it. name (furn it)) (furniture_items s')
                = map (\<lambda>it. name (furn it)) (furniture_items s)
                  @ [''Item '' @ str (int (length (list_widget s)) + 1)]
            \<and> list_widget s'
                = list_widget s @ [FurnitureData (''Item '' @ str (int (length (list_widget s)) + 1))])
       \<and> (room_rect_item s \<noteq> None \<longrightarrow>
            default_item_name (add_door (\<lambda>nm. Accepted nm w t) s)
              = ''Item '' @ str (int (length (list_widget s)) + 2))"
  using assms door_counts_for_item_name [of s w t]
  by (simp add: on_add_furniture_def to_m_currentText default_item_name_def
      new_FurnitureItem_def Let_def)

text \<open>
  The list holds a door and a piece named \<open>Item 3\<close>: two entries, so the new piece is
  named \<open>Item 3\<close> as well.
\<close>

theorem default_item_name_counts_list_witness:
  "f_name crowded_planner = []
   \<and> name_exists crowded_planner ''Item 3''
   \<and> on_add_furniture crowded_planner =
       Inr (crowded_planner
             \<lparr> furniture_items :=
                 [new_FurnitureItem
                    \<lparr> name = ''Item 3'', width_m = 1.8288, depth_m = 0.9144,
                      colour = ''#4a90e2'', x_m = 0, y_m = 0, rotation = 0 \<rparr> 60],
               list_widget :=
                 [DoorWindowData ''Door 1'', FurnitureData ''Item 3'', FurnitureData ''Item 3''] \<rparr>)"
  using default_item_name_counts_list [of crowded_planner 1 1]
  by (simp add: crowded_planner_def start_planner_def name_exists_def
      on_add_furniture_def default_item_name_def to_m_def map_of_UNIT_FACTORS
      str_def str_nat.simps digit_char_def Let_def)

subsection \<open>Lemmas: the loading loop\<close>









subsection \<open>Lemmas: the loading methods\<close>






subsection \<open>Theorems: the size of the room\<close>

text \<open>The start planner of the examples is the one \<open>__init__\<close> builds.\<close>

lemma RoomPlanner_init_example: "RoomPlanner_init example_qt = Inr start_planner"
  by (simp add: RoomPlanner_init_def to_m_def map_of_UNIT_FACTORS draw_room_border_def
      start_planner_def example_qt_def Let_def)






subsection \<open>Theorems: rotation\<close>

















subsection \<open>Theorems: a load that fails\<close>







subsection \<open>Theorems: saving and loading again\<close>









end
